theory Spec2Isabelle
  imports Main
begin

section \<open>Values decoded from JSON\<close>

text \<open>
  \<^verbatim>\<open>json.loads\<close> yields \<^verbatim>\<open>None\<close>, booleans, integers, floats, strings, lists
  and dictionaries with string keys. A dictionary keeps its keys in insertion order, so
  it is an association list; the keys of a decoded dictionary are distinct, and the
  properties below hold without that assumption. A float is represented by the text that \<^verbatim>\<open>repr\<close> prints
  for it: the program only ever tests a float for truth and converts it to a string.
  A \<open>char\<close> stands for one element of a Python \<^verbatim>\<open>str\<close>, so that \<open>length\<close> is
  \<^verbatim>\<open>len\<close> and \<open>take 10\<close> is the slice \<^verbatim>\<open>[:10]\<close>.
\<close>

datatype json =
    JNull
  | JBool bool
  | JInt int
  | JFloat string
  | JStr string
  | JList "json list"
  | JDict "(string \<times> json) list"

text \<open>
  The exceptions of the program: the three that its own statements raise, and
  \<open>LibraryError\<close> for an exception that a call into the presentation, plotting or
  graph library raises, with the text that \<^verbatim>\<open>str\<close> gives for it.
\<close>

datatype error = AttributeError | IndexError | TypeError | LibraryError string

subsection \<open>\<^verbatim>\<open>str\<close> and \<^verbatim>\<open>repr\<close>\<close>

text \<open>The digit for \<open>d < 16\<close>, in lower case as \<^verbatim>\<open>repr\<close> writes an escape.\<close>

definition digit_char :: "nat \<Rightarrow> char" where
  "digit_char d = ''0123456789abcdef'' ! d"

fun nat_str :: "nat \<Rightarrow> string" where
  "nat_str n = (if n < 10 then [digit_char n] else nat_str (n div 10) @ [digit_char (n mod 10)])"

declare nat_str.simps [simp del]

definition int_str :: "int \<Rightarrow> string" where
  "int_str i = (if i < 0 then CHR ''-'' # nat_str (nat (- i)) else nat_str (nat i))"

definition hex_escape :: "char \<Rightarrow> string" where
  "hex_escape c =
     [CHR 0x5C, CHR ''x'', digit_char (of_char c div 16), digit_char (of_char c mod 16)]"

text \<open>
  \<^verbatim>\<open>str.isprintable\<close> on the code points above ASCII that a \<open>char\<close> can hold: the
  control characters 128 to 159, the no-break space 160 and the soft hyphen 173 are not
  printable.
\<close>

definition printable_high :: "char \<Rightarrow> bool" where
  "printable_high c = (let n = (of_char c :: nat) in 160 < n \<and> n \<noteq> 173)"

definition repr_char :: "char \<Rightarrow> char \<Rightarrow> string" where
  "repr_char quote c =
     (if c = quote \<or> c = CHR 0x5C then [CHR 0x5C, c]
      else if c = CHR 0x09 then [CHR 0x5C, CHR ''t'']
      else if c = CHR 0x0A then [CHR 0x5C, CHR ''n'']
      else if c = CHR 0x0D then [CHR 0x5C, CHR ''r'']
      else if (of_char c :: nat) < 32 \<or> (of_char c :: nat) = 127 then hex_escape c
      else if (of_char c :: nat) < 127 then [c]
      else if printable_high c then [c]
      else hex_escape c)"

definition str_repr :: "string \<Rightarrow> string" where
  "str_repr s =
     (let quote = (if CHR 0x27 \<in> set s \<and> CHR 0x22 \<notin> set s then CHR 0x22 else CHR 0x27)
      in quote # concat (map (repr_char quote) s) @ [quote])"

fun join :: "string \<Rightarrow> string list \<Rightarrow> string" where
  "join sep [] = []"
| "join sep [x] = x"
| "join sep (x # y # ys) = x @ sep @ join sep (y # ys)"

fun py_repr :: "json \<Rightarrow> string" where
  "py_repr JNull = ''None''"
| "py_repr (JBool b) = (if b then ''True'' else ''False'')"
| "py_repr (JInt i) = int_str i"
| "py_repr (JFloat r) = r"
| "py_repr (JStr s) = str_repr s"
| "py_repr (JList xs) = ''['' @ join '', '' (map py_repr xs) @ '']''"
| "py_repr (JDict kvs) =
     ''{'' @ join '', '' (map (\<lambda>kv. str_repr (fst kv) @ '': '' @ py_repr (snd kv)) kvs) @ ''}''"

definition py_str :: "json \<Rightarrow> string" where
  "py_str v = (case v of JStr s \<Rightarrow> s | _ \<Rightarrow> py_repr v)"

text \<open>Truth value testing, as \<^verbatim>\<open>or\<close> and \<^verbatim>\<open>not\<close> apply it.\<close>

fun truthy :: "json \<Rightarrow> bool" where
  "truthy JNull = False"
| "truthy (JBool b) = b"
| "truthy (JInt i) = (i \<noteq> 0)"
| "truthy (JFloat r) = (r \<noteq> ''0.0'' \<and> r \<noteq> ''-0.0'')"
| "truthy (JStr s) = (s \<noteq> [])"
| "truthy (JList xs) = (xs \<noteq> [])"
| "truthy (JDict kvs) = (kvs \<noteq> [])"

text \<open>
  \<^verbatim>\<open>for x in v\<close>: a list yields its elements, a string its characters as one-character
  strings, a dictionary its keys; anything else is not iterable.
\<close>

fun py_iter :: "json \<Rightarrow> error + json list" where
  "py_iter (JList xs) = Inr xs"
| "py_iter (JStr s) = Inr (map (\<lambda>c. JStr [c]) s)"
| "py_iter (JDict kvs) = Inr (map (\<lambda>kv. JStr (fst kv)) kvs)"
| "py_iter _ = Inl TypeError"

text \<open>\<^verbatim>\<open>v.get(k, default)\<close>: only a dictionary has the method.\<close>

fun py_get :: "json \<Rightarrow> string \<Rightarrow> json \<Rightarrow> error + json" where
  "py_get (JDict kvs) k dflt = Inr (case map_of kvs k of Some v \<Rightarrow> v | None \<Rightarrow> dflt)"
| "py_get _ k dflt = Inl AttributeError"

text \<open>\<^verbatim>\<open>xs[i]\<close> for \<open>i \<ge> 0\<close>: out of range raises \<^verbatim>\<open>IndexError\<close>.\<close>

definition py_index :: "'a list \<Rightarrow> nat \<Rightarrow> error + 'a" where
  "py_index xs i = (if i < length xs then Inr (xs ! i) else Inl IndexError)"

text \<open>\<^verbatim>\<open>list(d.values())\<close> and \<^verbatim>\<open>d.get(k)\<close> on a value known to be a dictionary.\<close>

definition dict_values :: "(string \<times> json) list \<Rightarrow> json list" where
  "dict_values kvs = map snd kvs"

definition dict_get :: "(string \<times> json) list \<Rightarrow> string \<Rightarrow> json" where
  "dict_get kvs k = (case map_of kvs k of Some v \<Rightarrow> v | None \<Rightarrow> JNull)"

text \<open>\<^verbatim>\<open>a or b\<close> is \<^verbatim>\<open>a\<close> when \<^verbatim>\<open>a\<close> is true, and \<^verbatim>\<open>b\<close> otherwise.\<close>

definition py_or :: "json \<Rightarrow> json \<Rightarrow> json" where
  "py_or a b = (if truthy a then a else b)"

section \<open>Normalising the nodes and edges of a network graph\<close>

text \<open>
  The body of \<^verbatim>\<open>for n in raw_nodes\<close>, returning what it appends to
  \<^verbatim>\<open>clean_nodes\<close>. The list branch is guarded by \<^verbatim>\<open>len(n) > 0\<close>; the dictionary
  branch indexes \<^verbatim>\<open>list(n.values())[0]\<close> with no guard.
\<close>

definition clean_node :: "json \<Rightarrow> error + string list" where
  "clean_node n =
     (case n of
        JStr s \<Rightarrow> Inr [s]
      | JList xs \<Rightarrow>
          if length xs > 0
          then (case py_index xs 0 of Inl e \<Rightarrow> Inl e | Inr x \<Rightarrow> Inr [py_str x])
          else Inr []
      | JDict kvs \<Rightarrow>
          (case py_index (dict_values kvs) 0 of Inl e \<Rightarrow> Inl e | Inr v \<Rightarrow> Inr [py_str v])
      | _ \<Rightarrow> Inr [])"

fun clean_nodes_loop :: "string list \<Rightarrow> json list \<Rightarrow> error + string list" where
  "clean_nodes_loop clean_nodes [] = Inr clean_nodes"
| "clean_nodes_loop clean_nodes (n # ns) =
     (case clean_node n of
        Inl e \<Rightarrow> Inl e
      | Inr new \<Rightarrow> clean_nodes_loop (clean_nodes @ new) ns)"

definition clean_nodes :: "json list \<Rightarrow> error + string list" where
  "clean_nodes raw_nodes = clean_nodes_loop [] raw_nodes"

text \<open>The body of \<^verbatim>\<open>for e in raw_edges\<close>: both branches check for two elements.\<close>

definition clean_edge :: "json \<Rightarrow> error + (string \<times> string) list" where
  "clean_edge e =
     (case e of
        JList xs \<Rightarrow>
          if length xs \<ge> 2
          then (case py_index xs 0 of Inl er \<Rightarrow> Inl er | Inr a \<Rightarrow>
                (case py_index xs 1 of Inl er \<Rightarrow> Inl er | Inr b \<Rightarrow>
                   Inr [(py_str a, py_str b)]))
          else Inr []
      | JDict kvs \<Rightarrow>
          (let vals = dict_values kvs in
           if length vals \<ge> 2
           then (case py_index vals 0 of Inl er \<Rightarrow> Inl er | Inr a \<Rightarrow>
                 (case py_index vals 1 of Inl er \<Rightarrow> Inl er | Inr b \<Rightarrow>
                    Inr [(py_str a, py_str b)]))
           else Inr [])
      | _ \<Rightarrow> Inr [])"

fun clean_edges_loop ::
  "(string \<times> string) list \<Rightarrow> json list \<Rightarrow> error + (string \<times> string) list" where
  "clean_edges_loop clean_edges [] = Inr clean_edges"
| "clean_edges_loop clean_edges (e # es) =
     (case clean_edge e of
        Inl er \<Rightarrow> Inl er
      | Inr new \<Rightarrow> clean_edges_loop (clean_edges @ new) es)"

definition clean_edges :: "json list \<Rightarrow> error + (string \<times> string) list" where
  "clean_edges raw_edges = clean_edges_loop [] raw_edges"

section \<open>Reading the events of a timeline\<close>

text \<open>
  The two chains of \<^verbatim>\<open>e.get(...) or ...\<close> that end in a sentinel string, each passed
  to \<^verbatim>\<open>str\<close>.
\<close>

definition event_date :: "(string \<times> json) list \<Rightarrow> string" where
  "event_date e =
     py_str (py_or (dict_get e ''date'') (py_or (dict_get e ''year'')
       (py_or (dict_get e ''time'') (py_or (dict_get e ''Date'') (JStr ''N/A'')))))"

definition event_label :: "(string \<times> json) list \<Rightarrow> string" where
  "event_label e =
     py_str (py_or (dict_get e ''label'') (py_or (dict_get e ''title'')
       (py_or (dict_get e ''event'') (py_or (dict_get e ''Label'') (JStr ''No Label'')))))"

text \<open>
  \<^verbatim>\<open>for e in events\<close>, with the two accumulators \<^verbatim>\<open>dates\<close> and \<^verbatim>\<open>labels\<close>; an
  entry that is not a dictionary is passed over.
\<close>

fun read_events ::
  "string list \<Rightarrow> string list \<Rightarrow> json list \<Rightarrow> string list \<times> string list" where
  "read_events dates labels [] = (dates, labels)"
| "read_events dates labels (JDict e # es) =
     read_events (dates @ [event_date e]) (labels @ [event_label e]) es"
| "read_events dates labels (_ # es) = read_events dates labels es"

text \<open>\<^verbatim>\<open>label[:10] + '...' if len(label) > 10 else label\<close>.\<close>

definition display_label :: "string \<Rightarrow> string" where
  "display_label label = (if length label > 10 then take 10 label @ ''...'' else label)"

section \<open>Graphs\<close>

text \<open>
  The graph library is not part of the repository. A graph is represented by what it
  reports, its nodes and its edges; a new graph reports none, and
  \<^verbatim>\<open>G.number_of_nodes()\<close> counts the nodes. What \<^verbatim>\<open>add_nodes_from\<close> and
  \<^verbatim>\<open>add_edges_from\<close> make of a graph is left to the library: both are parameters of
  the surroundings below.
\<close>

record graph =
  g_nodes :: "string list"
  g_edges :: "(string \<times> string) list"

definition empty_graph :: graph where
  "empty_graph = \<lparr>g_nodes = [], g_edges = []\<rparr>"

definition number_of_nodes :: "graph \<Rightarrow> nat" where
  "number_of_nodes G = length (g_nodes G)"

section \<open>Slides and images\<close>

text \<open>
  What the program draws on the axes of a figure, one constructor for each kind of call:
  \<open>CenterText\<close> is \<^verbatim>\<open>ax.text(0.5, 0.5, s, ha='center', va='center')\<close>, \<open>DateText\<close>
  and \<open>LabelText\<close> are the texts above and below the \<open>i\<close>-th point of a timeline.
\<close>

datatype artist =
    Bars json json
  | Grid
  | CenterText string
  | GraphNodes graph
  | GraphEdges graph
  | GraphLabels graph string
  | HLine int
  | Markers nat
  | DateText nat string
  | LabelText nat string

record image =
  artists :: "artist list"
  axis_off :: bool
  ax_title :: "json option"

text \<open>
  The shapes of a slide, in the order in which they are added to it: the title box with
  the value given as its text, the text box of a bullet list with the text of each
  paragraph after its bullet glyph, and the picture of an encoded figure.
\<close>

datatype shape =
    TitleBox json
  | TextBox "string list"
  | Picture image

type_synonym slide = "shape list"

text \<open>
  The surroundings of \<^verbatim>\<open>create_slide_deck\<close>: the global \<^verbatim>\<open>jp_font\<close> (the family name
  of the font asset, if it was found) and the libraries. The libraries are not part of
  the repository, so what they do with data of the input is a parameter: the two calls
  that add nodes and edges to a graph, and, for each call that may raise, the text of the
  exception it raises, if any. These calls are: setting the text of the title box,
  drawing the bars, the four calls inside the \<^verbatim>\<open>try\<close> block of the network graph,
  \<^verbatim>\<open>plt.savefig\<close>, which lays out the texts of the figure and encodes it, and
  \<^verbatim>\<open>add_picture\<close>, which inserts the encoded figure. The exceptions are those that
  \<^verbatim>\<open>except Exception\<close> catches; an interrupt or an exit of the interpreter is not
  modelled. Creating a figure, placing a text and hiding the axes are taken to return
  normally.
\<close>

record env =
  jp_font :: "string option"
  add_nodes_from :: "string list \<Rightarrow> graph \<Rightarrow> graph"
  add_edges_from :: "(string \<times> string) list \<Rightarrow> graph \<Rightarrow> graph"
  set_text_raises :: "json \<Rightarrow> string option"
  bar_raises :: "json \<Rightarrow> json \<Rightarrow> string option"
  spring_layout_raises :: "graph \<Rightarrow> string option"
  draw_nodes_raises :: "graph \<Rightarrow> string option"
  draw_edges_raises :: "graph \<Rightarrow> string option"
  draw_labels_raises :: "graph \<Rightarrow> string \<Rightarrow> string option"
  savefig_raises :: "image \<Rightarrow> string option"
  add_picture_raises :: "image \<Rightarrow> string option"

section \<open>Rendering one slide\<close>

text \<open>
  The end of each chart branch: \<^verbatim>\<open>plt.savefig\<close> into a stream, then
  \<^verbatim>\<open>slide.shapes.add_picture\<close> of the stream. Neither call is inside a \<^verbatim>\<open>try\<close>, so
  an exception of either leaves \<^verbatim>\<open>create_slide_deck\<close>.
\<close>

definition save_picture :: "env \<Rightarrow> image \<Rightarrow> error + shape" where
  "save_picture E img =
     (case savefig_raises E img of Some m \<Rightarrow> Inl (LibraryError m) | None \<Rightarrow>
      (case add_picture_raises E img of Some m \<Rightarrow> Inl (LibraryError m) | None \<Rightarrow>
         Inr (Picture img)))"

subsection \<open>Bullet points and bar chart\<close>

definition render_bullet_points :: "json \<Rightarrow> error + shape" where
  "render_bullet_points content =
     (case py_get content ''points'' (JList []) of Inl e \<Rightarrow> Inl e | Inr points \<Rightarrow>
      (case py_iter points of Inl e \<Rightarrow> Inl e | Inr items \<Rightarrow>
         Inr (TextBox (map py_str items))))"

definition render_bar_chart :: "env \<Rightarrow> json \<Rightarrow> json \<Rightarrow> error + shape" where
  "render_bar_chart E slide_data content =
     (case py_get content ''labels'' (JList []) of Inl e \<Rightarrow> Inl e | Inr labels \<Rightarrow>
      (case py_get content ''values'' (JList []) of Inl e \<Rightarrow> Inl e | Inr vals \<Rightarrow>
       (case bar_raises E labels vals of Some m \<Rightarrow> Inl (LibraryError m) | None \<Rightarrow>
        (case py_get slide_data ''title'' JNull of Inl e \<Rightarrow> Inl e | Inr t \<Rightarrow>
           save_picture E \<lparr>artists = [Bars labels vals, Grid], axis_off = False,
                           ax_title = Some t\<rparr>))))"

subsection \<open>Network graph\<close>

text \<open>
  The two cleaning loops, in the order of the source: an exception of the first loop is
  raised before the edges are looked at.
\<close>

definition normalize_graph_data :: "json \<Rightarrow> error + string list \<times> (string \<times> string) list" where
  "normalize_graph_data content =
     (case py_get content ''nodes'' (JList []) of Inl e \<Rightarrow> Inl e | Inr raw_nodes \<Rightarrow>
      (case py_get content ''edges'' (JList []) of Inl e \<Rightarrow> Inl e | Inr raw_edges \<Rightarrow>
       (case py_iter raw_nodes of Inl e \<Rightarrow> Inl e | Inr ns \<Rightarrow>
        (case clean_nodes ns of Inl e \<Rightarrow> Inl e | Inr cn \<Rightarrow>
         (case py_iter raw_edges of Inl e \<Rightarrow> Inl e | Inr es \<Rightarrow>
          (case clean_edges es of Inl e \<Rightarrow> Inl e | Inr ce \<Rightarrow> Inr (cn, ce)))))))"

text \<open>
  \<^verbatim>\<open>G = nx.Graph()\<close>, then the two guarded calls: neither is made for an empty list.
\<close>

definition build_graph :: "env \<Rightarrow> string list \<Rightarrow> (string \<times> string) list \<Rightarrow> graph" where
  "build_graph E cn ce =
     (let G = empty_graph;
          G = (if cn \<noteq> [] then add_nodes_from E cn G else G);
          G = (if ce \<noteq> [] then add_edges_from E ce G else G)
      in G)"

text \<open>
  The \<^verbatim>\<open>try\<close> block: the layout, then the three drawing calls. The result is what was
  drawn before the first exception, and the text of that exception, if there was one.
\<close>

definition font_family :: "env \<Rightarrow> string" where
  "font_family E = (case jp_font E of Some name \<Rightarrow> name | None \<Rightarrow> ''sans-serif'')"

definition try_draw :: "env \<Rightarrow> graph \<Rightarrow> artist list \<times> string option" where
  "try_draw E G =
     (case spring_layout_raises E G of Some ex \<Rightarrow> ([], Some ex) | None \<Rightarrow>
      (case draw_nodes_raises E G of Some ex \<Rightarrow> ([], Some ex) | None \<Rightarrow>
       (case draw_edges_raises E G of Some ex \<Rightarrow> ([GraphNodes G], Some ex) | None \<Rightarrow>
        (let f_family = font_family E in
         case draw_labels_raises E G f_family of
           Some ex \<Rightarrow> ([GraphNodes G, GraphEdges G], Some ex)
         | None \<Rightarrow> ([GraphNodes G, GraphEdges G, GraphLabels G f_family], None)))))"

definition draw_graph :: "env \<Rightarrow> graph \<Rightarrow> artist list" where
  "draw_graph E G =
     (if number_of_nodes G = 0 then [CenterText ''No Data for Graph'']
      else (case try_draw E G of
              (drawn, None) \<Rightarrow> drawn
            | (drawn, Some ex) \<Rightarrow> drawn @ [CenterText (''Graph Error: '' @ ex)]))"

text \<open>
  The figure of the placeholder holds two texts of the program and nothing of the
  input; encoding and inserting it are taken to return normally. Any other figure holds
  texts of the input, and encoding and inserting it may raise.
\<close>

definition render_network_graph :: "env \<Rightarrow> json \<Rightarrow> error + shape" where
  "render_network_graph E content =
     (case normalize_graph_data content of Inl e \<Rightarrow> Inl e | Inr (cn, ce) \<Rightarrow>
        (let G = build_graph E cn ce;
             img = \<lparr>artists = draw_graph E G, axis_off = True,
                    ax_title = Some (JStr ''Concept Map'')\<rparr>
         in if number_of_nodes G = 0 then Inr (Picture img) else save_picture E img))"

subsection \<open>Timeline\<close>

fun is_list :: "json \<Rightarrow> bool" where
  "is_list (JList xs) = True"
| "is_list _ = False"

fun timeline_texts :: "nat \<Rightarrow> string list \<Rightarrow> string list \<Rightarrow> artist list" where
  "timeline_texts i (date # dates) (label # labels) =
     DateText i date # LabelText i (display_label label) # timeline_texts (Suc i) dates labels"
| "timeline_texts i _ _ = []"

definition draw_timeline :: "string list \<Rightarrow> string list \<Rightarrow> image" where
  "draw_timeline dates labels =
     (if dates \<noteq> []
      then \<lparr>artists = HLine (int (length dates) - 1) # Markers (length dates)
                        # timeline_texts 0 dates labels,
            axis_off = True, ax_title = None\<rparr>
      else \<lparr>artists = [CenterText ''No Timeline Data''], axis_off = True, ax_title = None\<rparr>)"

text \<open>
  \<^verbatim>\<open>content.get('events', [])\<close> comes first, and only then the test whether the content
  itself is a list. The figure without events holds one text of the program and is taken
  to encode; a figure with events holds their dates and labels, and encoding and
  inserting it may raise.
\<close>

definition render_timeline :: "env \<Rightarrow> json \<Rightarrow> error + shape" where
  "render_timeline E content =
     (case py_get content ''events'' (JList []) of Inl e \<Rightarrow> Inl e | Inr events \<Rightarrow>
      (let events = (if \<not> truthy events \<and> is_list content then content else events) in
       case py_iter events of Inl e \<Rightarrow> Inl e | Inr es \<Rightarrow>
         (case read_events [] [] es of (dates, labels) \<Rightarrow>
            if dates \<noteq> [] then save_picture E (draw_timeline dates labels)
            else Inr (Picture (draw_timeline dates labels)))))"

section \<open>Building the deck\<close>

definition render_slide :: "env \<Rightarrow> json \<Rightarrow> error + slide" where
  "render_slide E slide_data =
     (case py_get slide_data ''title'' (JStr ''No Title'') of Inl e \<Rightarrow> Inl e | Inr t \<Rightarrow>
      (case set_text_raises E t of Some m \<Rightarrow> Inl (LibraryError m) | None \<Rightarrow>
       (case py_get slide_data ''type'' JNull of Inl e \<Rightarrow> Inl e | Inr sType \<Rightarrow>
        (case py_get slide_data ''content'' (JDict []) of Inl e \<Rightarrow> Inl e | Inr content \<Rightarrow>
           if sType = JStr ''bullet_points'' then
             (case render_bullet_points content of
                Inl e \<Rightarrow> Inl e | Inr s \<Rightarrow> Inr [TitleBox t, s])
           else if sType = JStr ''bar_chart'' then
             (case render_bar_chart E slide_data content of
                Inl e \<Rightarrow> Inl e | Inr s \<Rightarrow> Inr [TitleBox t, s])
           else if sType = JStr ''network_graph'' then
             (case render_network_graph E content of
                Inl e \<Rightarrow> Inl e | Inr s \<Rightarrow> Inr [TitleBox t, s])
           else if sType = JStr ''timeline'' then
             (case render_timeline E content of
                Inl e \<Rightarrow> Inl e | Inr s \<Rightarrow> Inr [TitleBox t, s])
           else Inr [TitleBox t]))))"

text \<open>
  \<^verbatim>\<open>for slide_data in json_data\<close>, with the presentation \<^verbatim>\<open>prs\<close> as the accumulator:
  an exception leaves the function and no document is returned.
\<close>

fun build_slides :: "env \<Rightarrow> slide list \<Rightarrow> json list \<Rightarrow> error + slide list" where
  "build_slides E prs [] = Inr prs"
| "build_slides E prs (slide_data # rest) =
     (case render_slide E slide_data of
        Inl e \<Rightarrow> Inl e
      | Inr s \<Rightarrow> build_slides E (prs @ [s]) rest)"

definition create_slide_deck :: "env \<Rightarrow> json \<Rightarrow> error + slide list" where
  "create_slide_deck E json_data =
     (case py_iter json_data of Inl e \<Rightarrow> Inl e | Inr ds \<Rightarrow> build_slides E [] ds)"

section \<open>Definitions for stating the properties\<close>

text \<open>
  What the specification says an entry of the nodes list contributes: a string itself, a
  non-empty sequence its first element, a mapping its first value, and nothing otherwise.
\<close>

fun node_id :: "json \<Rightarrow> string option" where
  "node_id (JStr s) = Some s"
| "node_id (JList (x # xs)) = Some (py_str x)"
| "node_id (JDict ((k, v) # kvs)) = Some (py_str v)"
| "node_id _ = None"

text \<open>
  What the specification says an entry of the edges list contributes: the first two
  elements of a sequence, the first two values of a mapping, and nothing otherwise.
\<close>

fun edge_pair :: "json \<Rightarrow> (string \<times> string) option" where
  "edge_pair (JList (a # b # rest)) = Some (py_str a, py_str b)"
| "edge_pair (JDict ((k1, a) # (k2, b) # rest)) = Some (py_str a, py_str b)"
| "edge_pair _ = None"

text \<open>The value of the first of the keys, in their order, that is present and true.\<close>

fun first_truthy :: "(string \<times> json) list \<Rightarrow> string list \<Rightarrow> json option" where
  "first_truthy e [] = None"
| "first_truthy e (k # ks) =
     (case map_of e k of
        Some v \<Rightarrow> if truthy v then Some v else first_truthy e ks
      | None \<Rightarrow> first_truthy e ks)"

text \<open>The title and the content of a descriptor, with the defaults of the source.\<close>

definition title_of :: "(string \<times> json) list \<Rightarrow> json" where
  "title_of d = (case map_of d ''title'' of Some t \<Rightarrow> t | None \<Rightarrow> JStr ''No Title'')"


text \<open>
  The first call of the \<^verbatim>\<open>try\<close> block that raises, in the order of the source, as its
  position and the text of its exception: the layout is call 0, drawing the nodes call
  1, drawing the edges call 2 and drawing the labels call 3.
\<close>

fun first_some :: "nat \<Rightarrow> 'a option list \<Rightarrow> (nat \<times> 'a) option" where
  "first_some k [] = None"
| "first_some k (Some x # xs) = Some (k, x)"
| "first_some k (None # xs) = first_some (Suc k) xs"

definition first_raised :: "env \<Rightarrow> graph \<Rightarrow> (nat \<times> string) option" where
  "first_raised E G =
     first_some 0 [spring_layout_raises E G, draw_nodes_raises E G, draw_edges_raises E G,
                   draw_labels_raises E G (font_family E)]"


text \<open>
  One graph library, for the examples: nodes and edges are kept in lists, a node or an
  edge that is there already is not added again, and adding an edge adds its endpoints.
  No property below depends on it; each holds for every library, under the hypotheses it
  states.
\<close>

definition list_add_node :: "string \<Rightarrow> graph \<Rightarrow> graph" where
  "list_add_node n G = (if n \<in> set (g_nodes G) then G else G\<lparr>g_nodes := g_nodes G @ [n]\<rparr>)"

definition list_add_edge :: "string \<times> string \<Rightarrow> graph \<Rightarrow> graph" where
  "list_add_edge e G =
     (let G' = list_add_node (snd e) (list_add_node (fst e) G)
      in if e \<in> set (g_edges G') \<or> (snd e, fst e) \<in> set (g_edges G') then G'
         else G'\<lparr>g_edges := g_edges G' @ [e]\<rparr>)"

text \<open>Surroundings with this graph library, no font asset and no library call that raises.\<close>

definition quiet_env :: env where
  "quiet_env =
     \<lparr>jp_font = None,
      add_nodes_from = fold list_add_node,
      add_edges_from = fold list_add_edge,
      set_text_raises = (\<lambda>t. None),
      bar_raises = (\<lambda>labels vals. None),
      spring_layout_raises = (\<lambda>G. None),
      draw_nodes_raises = (\<lambda>G. None),
      draw_edges_raises = (\<lambda>G. None),
      draw_labels_raises = (\<lambda>G f. None),
      savefig_raises = (\<lambda>img. None),
      add_picture_raises = (\<lambda>img. None)\<rparr>"


text \<open>
  Surroundings in which a formula that does not parse stops the encoding of a figure.
  The plotting library reads a text between dollar signs as a formula when it lays the
  text out, which is when the figure is encoded; \<open>frac_text\<close> is the text
  \<^verbatim>\<open>$\frac$\<close>, a formula that does not parse.
\<close>

definition frac_text :: string where
  "frac_text = [CHR ''$'', CHR 0x5C, CHR ''f'', CHR ''r'', CHR ''a'', CHR ''c'', CHR ''$'']"

fun occurs :: "string \<Rightarrow> string \<Rightarrow> bool" where
  "occurs p [] = (p = [])"
| "occurs p (c # s) = (take (length p) (c # s) = p \<or> occurs p s)"

fun texts_of :: "artist \<Rightarrow> string list" where
  "texts_of (CenterText s) = [s]"
| "texts_of (GraphLabels G f) = g_nodes G"
| "texts_of (DateText i s) = [s]"
| "texts_of (LabelText i s) = [s]"
| "texts_of _ = []"

definition mathtext_env :: env where
  "mathtext_env =
     quiet_env\<lparr>savefig_raises :=
       (\<lambda>img. if list_ex (occurs frac_text) (concat (map texts_of (artists img)))
              then Some ''formula does not parse'' else None)\<rparr>"


section \<open>Node normalisation\<close>

lemma clean_node_empty_mapping: "clean_node (JDict []) = Inl IndexError"
  by (simp add: clean_node_def py_index_def dict_values_def)

lemma clean_node_eq:
  "n \<noteq> JDict [] \<Longrightarrow> clean_node n = Inr (case node_id n of None \<Rightarrow> [] | Some s \<Rightarrow> [s])"
  by (induction n rule: node_id.induct)
     (simp_all add: clean_node_def py_index_def dict_values_def)

text \<open>
  Away from the empty mapping the loop does what the specification says; at the first
  empty mapping it raises.
\<close>

lemma clean_nodes_loop_eq:
  "JDict [] \<notin> set ns \<Longrightarrow> clean_nodes_loop acc ns = Inr (acc @ List.map_filter node_id ns)"
  by (induction ns arbitrary: acc)
     (auto simp: clean_node_eq map_filter_simps split: option.split)

lemma clean_nodes_loop_raises:
  "JDict [] \<in> set ns \<Longrightarrow> clean_nodes_loop acc ns = Inl IndexError"
proof (induction ns arbitrary: acc)
  case Nil
  then show ?case by simp
next
  case (Cons n ns)
  show ?case
  proof (cases "n = JDict []")
    case True
    then show ?thesis by (simp add: clean_node_empty_mapping)
  next
    case False
    with Cons.prems have "JDict [] \<in> set ns" by auto
    with Cons.IH False show ?thesis by (simp add: clean_node_eq)
  qed
qed

lemma clean_nodes_eq:
  "clean_nodes ns =
     (if JDict [] \<in> set ns then Inl IndexError else Inr (List.map_filter node_id ns))"
  by (simp add: clean_nodes_def clean_nodes_loop_eq clean_nodes_loop_raises)

text \<open>
  C1. The specification's own example of node normalisation,
  \<^verbatim>\<open>["A", ["B"], {"x":"C"}, {}, [], 5]\<close>, does not yield \<^verbatim>\<open>["A","B","C"]\<close>: at the
  empty mapping the unguarded \<^verbatim>\<open>list(n.values())[0]\<close> raises \<^verbatim>\<open>IndexError\<close>. Without
  the empty mapping the same entries do yield \<^verbatim>\<open>["A","B","C"]\<close>.
\<close>

theorem nodes_example_raises:
  "clean_nodes [JStr ''A'', JList [JStr ''B''], JDict [(''x'', JStr ''C'')],
                JDict [], JList [], JInt 5] = Inl IndexError \<and>
   clean_nodes [JStr ''A'', JList [JStr ''B''], JDict [(''x'', JStr ''C'')],
                JList [], JInt 5] = Inr [''A'', ''B'', ''C'']"
  by (simp add: clean_nodes_eq map_filter_simps py_str_def)

text \<open>
  C2. Normalisation does raise on a list of entries: a nodes list that holds an empty
  mapping raises \<^verbatim>\<open>IndexError\<close>, and the exception leaves the rendering of the
  network graph and the build of the deck.
\<close>

theorem normalization_raises:
  "clean_nodes [JDict []] = Inl IndexError \<and>
   normalize_graph_data (JDict [(''nodes'', JList [JDict []])]) = Inl IndexError \<and>
   render_network_graph E (JDict [(''nodes'', JList [JDict []])]) = Inl IndexError \<and>
   create_slide_deck quiet_env
     (JList [JDict [(''title'', JStr ''Map''), (''type'', JStr ''network_graph''),
                    (''content'', JDict [(''nodes'', JList [JDict []])])]]) = Inl IndexError"
  by (simp add: clean_nodes_eq normalize_graph_data_def render_network_graph_def
        create_slide_deck_def render_slide_def quiet_env_def)

section \<open>Edge normalisation\<close>

lemma clean_edge_eq: "clean_edge e = Inr (case edge_pair e of None \<Rightarrow> [] | Some p \<Rightarrow> [p])"
  by (induction e rule: edge_pair.induct)
     (simp_all add: clean_edge_def py_index_def dict_values_def)

lemma clean_edges_loop_eq:
  "clean_edges_loop acc es = Inr (acc @ List.map_filter edge_pair es)"
  by (induction es arbitrary: acc)
     (simp_all add: clean_edge_eq map_filter_simps split: option.split)

text \<open>
  C5. The edges loop never raises, and its result is the list of the pairs that the
  entries contribute, in their order: a sequence of at least two elements gives its
  first two elements as strings, a mapping of at least two values its first two values
  as strings, whatever the keys, and any other entry gives nothing. The specification's
  example \<^verbatim>\<open>[["A","B"], {"s":"A","t":"C"}, ["X"]]\<close> yields the pairs (A, B) and (A, C).
\<close>

theorem edge_normalization:
  "clean_edges es = Inr (List.map_filter edge_pair es) \<and>
   clean_edges [JList [JStr ''A'', JStr ''B''],
                JDict [(''s'', JStr ''A''), (''t'', JStr ''C'')],
                JList [JStr ''X'']] = Inr [(''A'', ''B''), (''A'', ''C'')]"
  by (simp add: clean_edges_def clean_edges_loop_eq map_filter_simps py_str_def)

section \<open>Timeline\<close>

text \<open>
  C3. A timeline whose content is itself a sequence is not rendered: \<^verbatim>\<open>content.get\<close>
  is called before the test \<^verbatim>\<open>isinstance(content, list)\<close>, and a list has no such
  method, so \<^verbatim>\<open>AttributeError\<close> is raised whatever the sequence holds, and the
  build of a deck with such a descriptor returns no document.
\<close>

theorem timeline_list_content_raises:
  "render_timeline E (JList events) = Inl AttributeError \<and>
   create_slide_deck quiet_env
     (JList [JDict [(''title'', JStr ''T''), (''type'', JStr ''timeline''),
                    (''content'', JList [JDict [(''date'', JStr ''2020''),
                                               (''label'', JStr ''Launch'')]])]]) =
     Inl AttributeError"
  by (simp add: render_timeline_def create_slide_deck_def render_slide_def quiet_env_def)

lemma py_or_first_truthy:
  "py_or (dict_get e k) (case first_truthy e ks of Some v \<Rightarrow> v | None \<Rightarrow> d) =
   (case first_truthy e (k # ks) of Some v \<Rightarrow> v | None \<Rightarrow> d)"
  by (simp add: py_or_def dict_get_def split: option.split)

lemma py_or_default:
  "py_or (dict_get e k) d = (case first_truthy e [k] of Some v \<Rightarrow> v | None \<Rightarrow> d)"
  by (simp add: py_or_def dict_get_def split: option.split)

lemma py_str_first_truthy:
  "py_str (case first_truthy e ks of Some v \<Rightarrow> v | None \<Rightarrow> JStr d) =
   (case first_truthy e ks of Some v \<Rightarrow> py_str v | None \<Rightarrow> d)"
  by (simp add: py_str_def split: option.split)

lemma or_chain4:
  "py_or (dict_get e k1) (py_or (dict_get e k2) (py_or (dict_get e k3)
     (py_or (dict_get e k4) d))) =
   (case first_truthy e [k1, k2, k3, k4] of Some v \<Rightarrow> v | None \<Rightarrow> d)"
proof -
  have "py_or (dict_get e k4) d = (case first_truthy e [k4] of Some v \<Rightarrow> v | None \<Rightarrow> d)"
    by (rule py_or_default)
  then show ?thesis
    by (simp only: py_or_first_truthy)
qed

text \<open>
  C4. The date of an event is the string of the value of the first key among
  \<^verbatim>\<open>date\<close>, \<^verbatim>\<open>year\<close>, \<^verbatim>\<open>time\<close>, \<^verbatim>\<open>Date\<close> whose value is true, and \<^verbatim>\<open>N/A\<close> if there
  is none; the label likewise from \<^verbatim>\<open>label\<close>, \<^verbatim>\<open>title\<close>, \<^verbatim>\<open>event\<close>, \<^verbatim>\<open>Label\<close>, with
  \<^verbatim>\<open>No Label\<close>. A key whose value is false (an empty string, zero) is passed over.
\<close>

theorem event_keys:
  "event_date e =
     (case first_truthy e [''date'', ''year'', ''time'', ''Date''] of
        Some v \<Rightarrow> py_str v | None \<Rightarrow> ''N/A'') \<and>
   event_label e =
     (case first_truthy e [''label'', ''title'', ''event'', ''Label''] of
        Some v \<Rightarrow> py_str v | None \<Rightarrow> ''No Label'')"
  unfolding event_date_def event_label_def
  by (simp only: or_chain4 py_str_first_truthy)

theorem event_keys_witness:
  "event_date [(''year'', JInt 1990), (''event'', JStr ''Founded'')] = ''1990'' \<and>
   event_label [(''year'', JInt 1990), (''event'', JStr ''Founded'')] = ''Founded'' \<and>
   event_date [] = ''N/A'' \<and> event_label [] = ''No Label'' \<and>
   event_date [(''date'', JStr []), (''year'', JInt 0), (''time'', JStr ''noon'')] = ''noon'' \<and>
   event_label [(''label'', JInt 0), (''Label'', JStr ''x''), (''title'', JStr ''T'')] = ''T''"
proof -
  have n: "py_str (JInt 1990) = ''1990''"
    by code_simp
  show ?thesis
    using event_keys [of "[(''year'', JInt 1990), (''event'', JStr ''Founded'')]"]
          event_keys [of "[]"]
          event_keys [of "[(''date'', JStr []), (''year'', JInt 0), (''time'', JStr ''noon'')]"]
          event_keys [of "[(''label'', JInt 0), (''Label'', JStr ''x''), (''title'', JStr ''T'')]"]
    by (simp add: n) (simp add: py_str_def)
qed

lemma read_events_lengths:
  "read_events ds ls es = (ds', ls') \<Longrightarrow> length ds = length ls \<Longrightarrow> length ds' = length ls'"
  by (induction ds ls es rule: read_events.induct) simp_all

lemma timeline_texts_label:
  "length dates = length labels \<Longrightarrow> i < length labels \<Longrightarrow>
   LabelText (k + i) (display_label (labels ! i)) \<in> set (timeline_texts k dates labels)"
proof (induction dates labels arbitrary: k i rule: list_induct2)
  case Nil
  then show ?case by simp
next
  case (Cons d ds l ls)
  show ?case
  proof (cases i)
    case 0
    then show ?thesis by simp
  next
    case (Suc j)
    with Cons.prems have "j < length ls" by simp
    from Cons.IH [OF this, of "Suc k"] Suc show ?thesis by simp
  qed
qed

text \<open>
  C8. A label of more than 10 characters is displayed as its first 10 characters
  followed by three dots, a label of at most 10 characters unchanged; and this displayed
  label is the text drawn under the \<open>i\<close>-th point of the timeline, for every label read
  from the events.
\<close>

theorem label_truncation:
  "(length label > 10 \<longrightarrow> display_label label = take 10 label @ ''...'') \<and>
   (length label \<le> 10 \<longrightarrow> display_label label = label) \<and>
   (read_events [] [] es = (dates, labels) \<longrightarrow> i < length labels \<longrightarrow>
      LabelText i (display_label (labels ! i)) \<in> set (artists (draw_timeline dates labels)))"
proof -
  have "LabelText i (display_label (labels ! i)) \<in> set (artists (draw_timeline dates labels))"
    if re: "read_events [] [] es = (dates, labels)" and i: "i < length labels"
  proof -
    have len: "length dates = length labels"
      using read_events_lengths [OF re] by simp
    with i have "dates \<noteq> []" by auto
    with timeline_texts_label [OF len i, of 0] show ?thesis
      by (simp add: draw_timeline_def)
  qed
  then show ?thesis by (simp add: display_label_def)
qed

theorem label_truncation_witness:
  "display_label ''Annual planning'' = ''Annual pla...'' \<and>
   display_label ''Founded'' = ''Founded'' \<and>
   LabelText 0 ''Annual pla...'' \<in> set (artists (draw_timeline [''2020''] [''Annual planning'']))"
proof -
  have re: "read_events [] []
              [JDict [(''date'', JStr ''2020''), (''label'', JStr ''Annual planning'')]] =
            ([''2020''], [''Annual planning''])"
    by (simp add: event_date_def event_label_def dict_get_def py_or_def py_str_def)
  have long: "length ''Annual planning'' > 10" and short: "length ''Founded'' \<le> 10"
    and i: "0 < length [''Annual planning'']"
    by simp_all
  note lt = label_truncation [of "''Annual planning''"
      "[JDict [(''date'', JStr ''2020''), (''label'', JStr ''Annual planning'')]]"
      "[''2020'']" "[''Annual planning'']" 0]
  from lt long have a: "display_label ''Annual planning'' = take 10 ''Annual planning'' @ ''...''"
    by blast
  from lt re i have c: "LabelText 0 (display_label ([''Annual planning''] ! 0))
              \<in> set (artists (draw_timeline [''2020''] [''Annual planning'']))"
    by blast
  from label_truncation [of "''Founded''" "[]" "[]" "[]" 0] short
  have b: "display_label ''Founded'' = ''Founded''"
    by blast
  from a c b show ?thesis by simp
qed

section \<open>Network graph\<close>

text \<open>
  C9. With empty nodes and edges no graph is built, and the image holds the placeholder
  text and nothing else on its axes, under the caption that every network graph image
  carries; nothing is raised.
\<close>

theorem empty_graph_placeholder:
  "render_network_graph E (JDict [(''nodes'', JList []), (''edges'', JList [])]) =
     Inr (Picture \<lparr>artists = [CenterText ''No Data for Graph''], axis_off = True,
                   ax_title = Some (JStr ''Concept Map'')\<rparr>)"
  by (simp add: render_network_graph_def normalize_graph_data_def clean_nodes_def
        clean_edges_def build_graph_def empty_graph_def draw_graph_def number_of_nodes_def)

text \<open>
  A text of the input is laid out only when the figure is encoded, outside the \<^verbatim>\<open>try\<close>
  block: where a formula that does not parse stops the encoding, a node or a label with
  such a text makes the rendering raise, though no call of the \<^verbatim>\<open>try\<close> block does.
\<close>

lemma node_text_raises_at_savefig:
  "first_raised mathtext_env (build_graph mathtext_env [frac_text] []) = None \<and>
   render_network_graph mathtext_env (JDict [(''nodes'', JList [JStr frac_text])]) =
     Inl (LibraryError ''formula does not parse'')"
  by (simp add: render_network_graph_def normalize_graph_data_def clean_nodes_def
        clean_node_def clean_edges_def build_graph_def empty_graph_def draw_graph_def
        number_of_nodes_def try_draw_def font_family_def save_picture_def first_raised_def
        mathtext_env_def quiet_env_def list_add_node_def frac_text_def)

lemma timeline_label_raises_at_savefig:
  "render_timeline mathtext_env
     (JDict [(''events'', JList [JDict [(''date'', JStr ''2020''),
                                        (''label'', JStr frac_text)]])]) =
     Inl (LibraryError ''formula does not parse'')"
  by (simp add: render_timeline_def event_date_def event_label_def dict_get_def py_or_def
        py_str_def draw_timeline_def display_label_def save_picture_def
        mathtext_env_def quiet_env_def frac_text_def)













section \<open>The deck\<close>

lemma build_slides_eq:
  "(build_slides E prs ds = Inr doc) =
   (\<exists>ss. doc = prs @ ss \<and> list_all2 (\<lambda>d s. render_slide E d = Inr s) ds ss)"
proof (induction ds arbitrary: prs)
  case Nil
  then show ?case by auto
next
  case (Cons d ds)
  show ?case
  proof (cases "render_slide E d")
    case (Inl e)
    then show ?thesis by (simp add: list_all2_Cons1)
  next
    case (Inr s)
    then show ?thesis by (simp add: Cons.IH list_all2_Cons1) blast
  qed
qed

lemma render_unknown_type:
  assumes "dict_get d ''type'' \<notin> {JStr ''bullet_points'', JStr ''bar_chart'',
             JStr ''network_graph'', JStr ''timeline''}"
  shows "render_slide E (JDict d) =
           (case set_text_raises E (title_of d) of
              None \<Rightarrow> Inr [TitleBox (title_of d)]
            | Some m \<Rightarrow> Inl (LibraryError m))"
  using assms
  by (simp add: render_slide_def title_of_def dict_get_def split: option.split)

text \<open>
  C6. The build returns a document exactly when every descriptor of the deck renders,
  and the document then has one slide for each descriptor, the \<open>i\<close>-th slide being the
  rendering of the \<open>i\<close>-th descriptor. A descriptor whose type is none of the four known
  ones renders as a slide that holds the title box and nothing else, provided the
  library accepts the title.
\<close>

theorem deck_pages:
  "((create_slide_deck E (JList deck) = Inr doc) =
      (length doc = length deck \<and>
       (\<forall>i<length deck. render_slide E (deck ! i) = Inr (doc ! i)))) \<and>
   (dict_get d ''type'' \<notin> {JStr ''bullet_points'', JStr ''bar_chart'',
        JStr ''network_graph'', JStr ''timeline''} \<longrightarrow>
    render_slide E (JDict d) =
      (case set_text_raises E (title_of d) of
         None \<Rightarrow> Inr [TitleBox (title_of d)]
       | Some m \<Rightarrow> Inl (LibraryError m)))"
proof -
  have "(create_slide_deck E (JList deck) = Inr doc) =
        list_all2 (\<lambda>d s. render_slide E d = Inr s) deck doc"
    by (simp add: create_slide_deck_def build_slides_eq)
  also have "\<dots> = (length doc = length deck \<and>
       (\<forall>i<length deck. render_slide E (deck ! i) = Inr (doc ! i)))"
    by (auto simp: list_all2_conv_all_nth)
  finally show ?thesis
    using render_unknown_type [of d E] by blast
qed

theorem deck_pages_witness:
  "create_slide_deck quiet_env
     (JList [JDict [(''title'', JStr ''Plan''), (''type'', JStr ''bullet_points''),
                    (''content'', JDict [(''points'', JList [JStr ''one'', JStr ''two''])])],
             JDict [(''title'', JStr ''Other''), (''type'', JStr ''mystery'')]]) =
     Inr [[TitleBox (JStr ''Plan''), TextBox [''one'', ''two'']], [TitleBox (JStr ''Other'')]] \<and>
   render_slide quiet_env (JDict [(''title'', JStr ''Other''), (''type'', JStr ''mystery'')]) =
     Inr [TitleBox (JStr ''Other'')]"
proof -
  note dp = deck_pages [of quiet_env
    "[JDict [(''title'', JStr ''Plan''), (''type'', JStr ''bullet_points''),
             (''content'', JDict [(''points'', JList [JStr ''one'', JStr ''two''])])],
      JDict [(''title'', JStr ''Other''), (''type'', JStr ''mystery'')]]"
    "[[TitleBox (JStr ''Plan''), TextBox [''one'', ''two'']], [TitleBox (JStr ''Other'')]]"
    "[(''title'', JStr ''Other''), (''type'', JStr ''mystery'')]"]
  have r1: "render_slide quiet_env
      (JDict [(''title'', JStr ''Plan''), (''type'', JStr ''bullet_points''),
              (''content'', JDict [(''points'', JList [JStr ''one'', JStr ''two''])])]) =
      Inr [TitleBox (JStr ''Plan''), TextBox [''one'', ''two'']]"
    by (simp add: render_slide_def render_bullet_points_def quiet_env_def py_str_def)
  have ty: "dict_get [(''title'', JStr ''Other''), (''type'', JStr ''mystery'')] ''type''
      \<notin> {JStr ''bullet_points'', JStr ''bar_chart'', JStr ''network_graph'', JStr ''timeline''}"
    by (simp add: dict_get_def)
  from dp ty have "render_slide quiet_env
      (JDict [(''title'', JStr ''Other''), (''type'', JStr ''mystery'')]) =
      (case set_text_raises quiet_env
              (title_of [(''title'', JStr ''Other''), (''type'', JStr ''mystery'')]) of
         None \<Rightarrow> Inr [TitleBox (title_of [(''title'', JStr ''Other''), (''type'', JStr ''mystery'')])]
       | Some m \<Rightarrow> Inl (LibraryError m))"
    by blast
  then have r2: "render_slide quiet_env
      (JDict [(''title'', JStr ''Other''), (''type'', JStr ''mystery'')]) =
      Inr [TitleBox (JStr ''Other'')]"
    by (simp add: quiet_env_def title_of_def)
  from r1 r2 have "length [[TitleBox (JStr ''Plan''), TextBox [''one'', ''two'']],
                           [TitleBox (JStr ''Other'')]] =
      length [JDict [(''title'', JStr ''Plan''), (''type'', JStr ''bullet_points''),
             (''content'', JDict [(''points'', JList [JStr ''one'', JStr ''two''])])],
      JDict [(''title'', JStr ''Other''), (''type'', JStr ''mystery'')]] \<and>
     (\<forall>i<length [JDict [(''title'', JStr ''Plan''), (''type'', JStr ''bullet_points''),
             (''content'', JDict [(''points'', JList [JStr ''one'', JStr ''two''])])],
      JDict [(''title'', JStr ''Other''), (''type'', JStr ''mystery'')]].
        render_slide quiet_env
          ([JDict [(''title'', JStr ''Plan''), (''type'', JStr ''bullet_points''),
             (''content'', JDict [(''points'', JList [JStr ''one'', JStr ''two''])])],
            JDict [(''title'', JStr ''Other''), (''type'', JStr ''mystery'')]] ! i) =
        Inr ([[TitleBox (JStr ''Plan''), TextBox [''one'', ''two'']],
              [TitleBox (JStr ''Other'')]] ! i))"
    by (simp add: less_Suc_eq)
  with dp r2 show ?thesis by blast
qed

end

